theory Spec2Isabelle
  imports Complex_Main
begin

section \<open>Data model (FaceTracker.h)\<close>

text \<open>
  The C++ type \<open>float\<close> is modelled as \<open>real\<close>: the arithmetic of the embedding is exact.
  Rounding to binary32, NaN, infinities and signed zero are outside the model; every
  statement below is about the formulas the code evaluates, read over the reals.
  \<open>std::cos\<close> and \<open>std::sin\<close> are the real functions \<open>cos\<close> and \<open>sin\<close>.
  A fixed-size array \<open>float a[n]\<close> is a list; its declared length is recorded in the
  well-formedness predicates below.
\<close>

record Landmark =
  lm_x :: real
  lm_y :: real
  lm_z :: real

record HeadPose =
  translation :: "real list"
  rotation :: "real list"
  modelMatrix :: "real list"

record KeyPoints =
  leftEye :: Landmark
  rightEye :: Landmark
  noseTip :: Landmark
  upperLip :: Landmark
  chin :: Landmark
  leftEar :: Landmark
  rightEar :: Landmark
  forehead :: Landmark

record FaceResult =
  hasFace :: bool
  confidence :: real
  landmarks :: "Landmark list"
  pose :: HeadPose
  keyPoints :: KeyPoints

record Config =
  maxNumFaces :: int
  minDetectionConfidence :: real
  minTrackingConfidence :: real
  enableSegmentation :: bool
  useGPU :: bool

text \<open>
  \<open>CVPixelBufferRef\<close> is a nullable pointer to a CoreVideo pixel buffer. The type is
  declared outside the repository; the buffer is taken here as its dimensions and its
  bytes, the pointer as an \<open>option\<close> (\<open>None\<close> is the null pointer).
\<close>

record CVPixelBuffer =
  bufWidth :: nat
  bufHeight :: nat
  bufBytes :: "nat list"

type_synonym CVPixelBufferRef = "CVPixelBuffer option"

definition CVPixelBufferGetWidth :: "CVPixelBuffer \<Rightarrow> nat" where
  "CVPixelBufferGetWidth b = bufWidth b"

definition CVPixelBufferGetHeight :: "CVPixelBuffer \<Rightarrow> nat" where
  "CVPixelBufferGetHeight b = bufHeight b"

subsection \<open>Initialisation of the structs\<close>

definition zero_Landmark :: Landmark where
  "zero_Landmark = \<lparr>lm_x = 0, lm_y = 0, lm_z = 0\<rparr>"

definition zero_HeadPose :: HeadPose where
  "zero_HeadPose =
     \<lparr>translation = replicate 3 0, rotation = replicate 3 0, modelMatrix = replicate 16 0\<rparr>"

definition zero_KeyPoints :: KeyPoints where
  "zero_KeyPoints =
     \<lparr>leftEye = zero_Landmark, rightEye = zero_Landmark, noseTip = zero_Landmark,
      upperLip = zero_Landmark, chin = zero_Landmark, leftEar = zero_Landmark,
      rightEar = zero_Landmark, forehead = zero_Landmark\<rparr>"

text \<open>
  \<open>FaceResult{}\<close> and the member initialiser \<open>lastResult_()\<close> value-initialise: the two
  members with default member initialisers take them, the vector is empty, and the
  members \<open>pose\<close> and \<open>keyPoints\<close>, which have no initialiser, are zeroed.
\<close>

definition FaceResult_value_init :: FaceResult where
  "FaceResult_value_init =
     \<lparr>hasFace = False, confidence = 0, landmarks = [],
      pose = zero_HeadPose, keyPoints = zero_KeyPoints\<rparr>"

text \<open>
  The declaration \<open>FaceResult result;\<close> default-initialises: \<open>hasFace\<close>, \<open>confidence\<close> and
  \<open>landmarks\<close> are as above, but \<open>pose\<close> and \<open>keyPoints\<close> are plain structs of floats with
  no initialiser and hold indeterminate values. The model takes these values as a
  parameter of the call.
\<close>

type_synonym Indeterminate = "HeadPose \<times> KeyPoints"

definition FaceResult_default_init :: "Indeterminate \<Rightarrow> FaceResult" where
  "FaceResult_default_init ind =
     \<lparr>hasFace = False, confidence = 0, landmarks = [],
      pose = fst ind, keyPoints = snd ind\<rparr>"

definition wf_HeadPose :: "HeadPose \<Rightarrow> bool" where
  "wf_HeadPose p \<longleftrightarrow>
     length (translation p) = 3 \<and> length (rotation p) = 3 \<and> length (modelMatrix p) = 16"

section \<open>3x3 matrices (anonymous namespace of FaceTracker.cpp)\<close>

definition kPi :: real where
  "kPi = 3.14159265358979323846"

text \<open>\<open>struct Matrix3x3 { float m[9]; }\<close>, row-major: the struct is its array.\<close>

type_synonym Matrix3x3 = "real list"

definition Matrix3x3_ctor :: Matrix3x3 where
  "Matrix3x3_ctor = (replicate 9 0)[0 := 1, 4 := 1, 8 := 1]"

definition identity :: Matrix3x3 where
  "identity = Matrix3x3_ctor"

definition rotationX :: "real \<Rightarrow> Matrix3x3" where
  "rotationX angle =
     (let r = Matrix3x3_ctor; c = cos angle; s = sin angle
      in r[4 := c, 5 := - s, 7 := s, 8 := c])"

definition rotationY :: "real \<Rightarrow> Matrix3x3" where
  "rotationY angle =
     (let r = Matrix3x3_ctor; c = cos angle; s = sin angle
      in r[0 := c, 2 := s, 6 := - s, 8 := c])"

definition rotationZ :: "real \<Rightarrow> Matrix3x3" where
  "rotationZ angle =
     (let r = Matrix3x3_ctor; c = cos angle; s = sin angle
      in r[0 := c, 1 := - s, 3 := s, 4 := c])"

text \<open>
  \<open>operator*\<close>: three nested counting loops over \<open>0..2\<close>; the entry \<open>i * 3 + j\<close> is set to
  zero and then accumulates the products over \<open>k\<close>.
\<close>

definition mul_k :: "Matrix3x3 \<Rightarrow> Matrix3x3 \<Rightarrow> nat \<Rightarrow> nat \<Rightarrow> nat \<Rightarrow> Matrix3x3 \<Rightarrow> Matrix3x3" where
  "mul_k a other i j k result =
     result[i * 3 + j := result ! (i * 3 + j) + a ! (i * 3 + k) * other ! (k * 3 + j)]"

definition mul_j :: "Matrix3x3 \<Rightarrow> Matrix3x3 \<Rightarrow> nat \<Rightarrow> nat \<Rightarrow> Matrix3x3 \<Rightarrow> Matrix3x3" where
  "mul_j a other i j result = fold (mul_k a other i j) [0..<3] (result[i * 3 + j := 0])"

definition mul_i :: "Matrix3x3 \<Rightarrow> Matrix3x3 \<Rightarrow> nat \<Rightarrow> Matrix3x3 \<Rightarrow> Matrix3x3" where
  "mul_i a other i result = fold (mul_j a other i) [0..<3] result"

definition Matrix3x3_mul :: "Matrix3x3 \<Rightarrow> Matrix3x3 \<Rightarrow> Matrix3x3" where
  "Matrix3x3_mul a other = fold (mul_i a other) [0..<3] Matrix3x3_ctor"

section \<open>Helper implementations of FaceTracker\<close>

subsection \<open>Landmark indices\<close>

definition kLeftEye :: nat where "kLeftEye = 33"
definition kRightEye :: nat where "kRightEye = 263"
definition kNoseTip :: nat where "kNoseTip = 1"
definition kUpperLip :: nat where "kUpperLip = 13"
definition kLowerLip :: nat where "kLowerLip = 14"
definition kChin :: nat where "kChin = 152"
definition kLeftEar :: nat where "kLeftEar = 234"
definition kRightEar :: nat where "kRightEar = 454"
definition kForehead :: nat where "kForehead = 10"
definition kLeftCheek :: nat where "kLeftCheek = 205"
definition kRightCheek :: nat where "kRightCheek = 425"

subsection \<open>extractKeyPoints\<close>

text \<open>
  The function returns nothing and writes through the reference \<open>kp\<close>: the model takes
  the old value of \<open>kp\<close> and returns the new one.
\<close>

definition kExpectedLandmarks :: nat where
  "kExpectedLandmarks = 478"

definition extractKeyPoints :: "Landmark list \<Rightarrow> KeyPoints \<Rightarrow> KeyPoints" where
  "extractKeyPoints lms kp =
     (if length lms < kExpectedLandmarks then kp
      else kp\<lparr>leftEye := lms ! kLeftEye,
              rightEye := lms ! kRightEye,
              noseTip := lms ! kNoseTip,
              upperLip := lms ! kUpperLip,
              chin := lms ! kChin,
              leftEar := lms ! kLeftEar,
              rightEar := lms ! kRightEar,
              forehead := lms ! kForehead\<rparr>)"

subsection \<open>computeHeadPose\<close>

text \<open>
  \<open>std::atan2\<close> is a function of the C library. On the reals it is the angle in
  \<open>(-\<pi>, \<pi>]\<close> of the point \<open>(x, y)\<close>, with the library's value \<open>0\<close> at the origin.
\<close>

definition atan2 :: "real \<Rightarrow> real \<Rightarrow> real" where
  "atan2 dy dx =
     (if 0 < dx then arctan (dy / dx)
      else if dx < 0 then (if 0 \<le> dy then arctan (dy / dx) + pi else arctan (dy / dx) - pi)
      else if 0 < dy then pi / 2
      else if dy < 0 then - (pi / 2)
      else 0)"

definition computeHeadPose :: "Landmark list \<Rightarrow> HeadPose \<Rightarrow> HeadPose" where
  "computeHeadPose lms p =
     (if length lms < 478 then p
      else
        let le = lms ! kLeftEye;
            re = lms ! kRightEye;
            eyeCenterX = (lm_x le + lm_x re) * 0.5;
            p = p\<lparr>rotation := (rotation p)[1 := (eyeCenterX - 0.5) * 2.0]\<rparr>;
            nt = lms ! kNoseTip;
            ch = lms ! kChin;
            eyeY = (lm_y le + lm_y re) * 0.5;
            p = p\<lparr>rotation := (rotation p)[0 := (eyeY - lm_y nt) * 1.5]\<rparr>;
            dx = lm_x re - lm_x le;
            dy = lm_y re - lm_y le;
            p = p\<lparr>rotation := (rotation p)[2 := atan2 dy dx]\<rparr>;
            p = p\<lparr>translation := (translation p)[0 := lm_x nt - 0.5]\<rparr>;
            p = p\<lparr>translation := (translation p)[1 := lm_y nt - 0.5]\<rparr>;
            p = p\<lparr>translation := (translation p)[2 := lm_z nt]\<rparr>
        in p)"

subsection \<open>normalizeModelMatrix\<close>

text \<open>
  The function writes the sixteen floats at \<open>matrix\<close> and reads none of them: it first
  fills them with zero. The model returns the new contents of the array.
\<close>

definition normalizeModelMatrix :: "HeadPose \<Rightarrow> real list" where
  "normalizeModelMatrix p =
     (let matrix = replicate 16 0;
          matrix = matrix[0 := 1, 5 := 1, 10 := 1, 15 := 1];
          Rx = rotationX (rotation p ! 0);
          Ry = rotationY (rotation p ! 1);
          Rz = rotationZ (rotation p ! 2);
          R = Matrix3x3_mul (Matrix3x3_mul Rz Ry) Rx;
          matrix = matrix[0 := R ! 0, 1 := R ! 1, 2 := R ! 2];
          matrix = matrix[4 := R ! 3, 5 := R ! 4, 6 := R ! 5];
          matrix = matrix[8 := R ! 6, 9 := R ! 7, 10 := R ! 8];
          matrix = matrix[12 := translation p ! 0 * 2.0];
          matrix = matrix[13 := - (translation p ! 1) * 2.0];
          matrix = matrix[14 := translation p ! 2 * 1.0 + 1.0]
      in matrix)"

section \<open>The implementation class \<open>FaceTracker::Impl\<close>\<close>

text \<open>
  The mutex is not modelled: every member function holds it from entry to return, so the
  calls on one session are steps of a sequential state machine over \<open>Impl\<close>.
\<close>

record Impl =
  Impl_config :: Config
  Impl_lastResult :: FaceResult

definition Impl_ctor :: "Config \<Rightarrow> Impl" where
  "Impl_ctor config = \<lparr>Impl_config = config, Impl_lastResult = FaceResult_value_init\<rparr>"

definition kNumLandmarks :: int where
  "kNumLandmarks = 478"

definition centerX :: real where "centerX = 0.5"
definition centerY :: real where "centerY = 0.5"
definition faceWidth :: real where "faceWidth = 0.3"
definition faceHeight :: real where "faceHeight = 0.4"

text \<open>
  The body of the mesh loop for index \<open>i\<close>. The index is never negative, where the
  truncating \<open>%\<close> and \<open>/\<close> of C++ agree with \<open>mod\<close> and \<open>div\<close>.
\<close>

definition mock_landmark :: "int \<Rightarrow> Landmark" where
  "mock_landmark i =
     (let u = real_of_int (i mod 23) / 22.0;
          v = real_of_int (i div 23) / 20.0;
          angle = u * 2.0 * kPi;
          radiusX = faceWidth * 0.5 * sin (v * kPi);
          radiusY = faceHeight * 0.5
      in \<lparr>lm_x = centerX + radiusX * cos angle,
          lm_y = centerY + (v - 0.5) * faceHeight,
          lm_z = cos (v * kPi) * 0.1\<rparr>)"

function mesh_loop :: "int \<Rightarrow> Landmark list \<Rightarrow> Landmark list" where
  "mesh_loop i lms =
     (if i < kNumLandmarks then mesh_loop (i + 1) (lms @ [mock_landmark i]) else lms)"
  by pat_completeness auto
termination
  by (relation "measure (\<lambda>(i, lms). nat (kNumLandmarks - i))") auto

declare mesh_loop.simps [simp del]

definition Impl_processFrame ::
    "Impl \<Rightarrow> CVPixelBufferRef \<Rightarrow> Indeterminate \<Rightarrow> FaceResult \<times> Impl" where
  "Impl_processFrame impl pixelBuffer ind =
     (let result = FaceResult_default_init ind;
          result = result\<lparr>hasFace := False\<rparr>
      in case pixelBuffer of
           None \<Rightarrow> (result, impl)
         | Some buf \<Rightarrow>
             let width = int (CVPixelBufferGetWidth buf);
                 height = int (CVPixelBufferGetHeight buf);
                 result = result\<lparr>hasFace := True\<rparr>;
                 result = result\<lparr>confidence := 0.95\<rparr>;
                 result = result\<lparr>landmarks := mesh_loop 0 (landmarks result)\<rparr>
             in (result, impl\<lparr>Impl_lastResult := result\<rparr>))"

definition Impl_getLastResult :: "Impl \<Rightarrow> FaceResult" where
  "Impl_getLastResult impl = Impl_lastResult impl"

definition Impl_reset :: "Impl \<Rightarrow> Impl" where
  "Impl_reset impl = impl\<lparr>Impl_lastResult := FaceResult_value_init\<rparr>"

section \<open>The class \<open>FaceTracker\<close>\<close>

record FaceTracker =
  FaceTracker_impl :: Impl
  FaceTracker_initialized :: bool

definition FaceTracker_ctor :: "Config \<Rightarrow> FaceTracker" where
  "FaceTracker_ctor config = \<lparr>FaceTracker_impl = Impl_ctor config, FaceTracker_initialized = True\<rparr>"

definition processFrame ::
    "FaceTracker \<Rightarrow> CVPixelBufferRef \<Rightarrow> Indeterminate \<Rightarrow> FaceResult \<times> FaceTracker" where
  "processFrame t pixelBuffer ind =
     (let (result, impl) = Impl_processFrame (FaceTracker_impl t) pixelBuffer ind;
          t = t\<lparr>FaceTracker_impl := impl\<rparr>
      in if hasFace result then
           let result = result\<lparr>keyPoints := extractKeyPoints (landmarks result) (keyPoints result)\<rparr>;
               result = result\<lparr>pose := computeHeadPose (landmarks result) (pose result)\<rparr>;
               result = result\<lparr>pose := (pose result)\<lparr>modelMatrix := normalizeModelMatrix (pose result)\<rparr>\<rparr>
           in (result, t)
         else (result, t))"

definition reset :: "FaceTracker \<Rightarrow> FaceTracker" where
  "reset t = t\<lparr>FaceTracker_impl := Impl_reset (FaceTracker_impl t)\<rparr>"

definition getLastResult :: "FaceTracker \<Rightarrow> FaceResult" where
  "getLastResult t = Impl_getLastResult (FaceTracker_impl t)"

definition isInitialized :: "FaceTracker \<Rightarrow> bool" where
  "isInitialized t = FaceTracker_initialized t"

section \<open>Reference definitions\<close>

subsection \<open>The rotation of the model matrix as the specification words it\<close>

text \<open>
  The elementary rotations about the X, Y and Z axes by the standard right-handed
  formulas, as lists of rows, the textbook product of 3x3 matrices, and the
  composition \<open>R = Rz * Ry * Rx\<close>. These follow the specification, not the code.
\<close>

type_synonym rows = "real list list"

definition spec_Rx :: "real \<Rightarrow> rows" where
  "spec_Rx a = [[1, 0, 0], [0, cos a, - sin a], [0, sin a, cos a]]"

definition spec_Ry :: "real \<Rightarrow> rows" where
  "spec_Ry a = [[cos a, 0, sin a], [0, 1, 0], [- sin a, 0, cos a]]"

definition spec_Rz :: "real \<Rightarrow> rows" where
  "spec_Rz a = [[cos a, - sin a, 0], [sin a, cos a, 0], [0, 0, 1]]"

definition spec_mul :: "rows \<Rightarrow> rows \<Rightarrow> rows" where
  "spec_mul A B =
     map (\<lambda>i. map (\<lambda>j. sum_list (map (\<lambda>k. A ! i ! k * B ! k ! j) [0..<3])) [0..<3]) [0..<3]"

definition spec_rotation :: "real \<Rightarrow> real \<Rightarrow> real \<Rightarrow> rows" where
  "spec_rotation pitch yaw roll = spec_mul (spec_mul (spec_Rz roll) (spec_Ry yaw)) (spec_Rx pitch)"

text \<open>
  The upper-left 3x3 block of a row-major 4x4 matrix, element \<open>row * 4 + col\<close>, as rows.
\<close>

definition rotation_block :: "real list \<Rightarrow> rows" where
  "rotation_block M = map (\<lambda>r. map (\<lambda>c. M ! (r * 4 + c)) [0..<3]) [0..<3]"

subsection \<open>Concrete inputs\<close>

text \<open>\<open>Config()\<close>: the default member initialisers of \<open>FaceTracker::Config\<close>.\<close>

definition Config_ctor :: Config where
  "Config_ctor =
     \<lparr>maxNumFaces = 1, minDetectionConfidence = 0.5, minTrackingConfidence = 0.5,
      enableSegmentation = False, useGPU = False\<rparr>"

definition gpu_Config :: Config where
  "gpu_Config =
     \<lparr>maxNumFaces = 4, minDetectionConfidence = 0.9, minTrackingConfidence = 0.1,
      enableSegmentation = True, useGPU = True\<rparr>"

definition frame_a :: CVPixelBuffer where
  "frame_a = \<lparr>bufWidth = 1, bufHeight = 1, bufBytes = [0, 0, 0, 255]\<rparr>"

definition frame_b :: CVPixelBuffer where
  "frame_b = \<lparr>bufWidth = 2, bufHeight = 1, bufBytes = [255, 255, 255, 255, 12, 34, 56, 255]\<rparr>"

text \<open>Two possible contents of the uninitialised members: all zero, and left-over data.\<close>

definition zero_ind :: Indeterminate where
  "zero_ind = (zero_HeadPose, zero_KeyPoints)"

definition stale_ind :: Indeterminate where
  "stale_ind =
     (\<lparr>translation = [1, 2, 3], rotation = [4, 5, 6], modelMatrix = replicate 16 7\<rparr>,
      zero_KeyPoints\<lparr>chin := \<lparr>lm_x = 1, lm_y = 1, lm_z = 1\<rparr>\<rparr>)"

text \<open>
  A landmark set of the full length that is zero everywhere but at the indices of the
  left eye, the right eye and the nose tip.
\<close>

definition synthetic_landmarks :: "Landmark \<Rightarrow> Landmark \<Rightarrow> Landmark \<Rightarrow> Landmark list" where
  "synthetic_landmarks le re nt = (replicate 478 zero_Landmark)[33 := le, 263 := re, 1 := nt]"

section \<open>Properties of the matrix code\<close>

lemma upt3: "[0..<3] = [0, 1, 2]"
  by (simp add: numeral_eq_Suc)

lemma Matrix3x3_ctor_list: "Matrix3x3_ctor = [1, 0, 0, 0, 1, 0, 0, 0, 1]"
  by (simp add: Matrix3x3_ctor_def numeral_eq_Suc)

lemma rotationX_list: "rotationX a = [1, 0, 0, 0, cos a, - sin a, 0, sin a, cos a]"
  by (simp add: rotationX_def Let_def Matrix3x3_ctor_list numeral_eq_Suc)

lemma rotationY_list: "rotationY a = [cos a, 0, sin a, 0, 1, 0, - sin a, 0, cos a]"
  by (simp add: rotationY_def Let_def Matrix3x3_ctor_list numeral_eq_Suc)

lemma rotationZ_list: "rotationZ a = [cos a, - sin a, 0, sin a, cos a, 0, 0, 0, 1]"
  by (simp add: rotationZ_def Let_def Matrix3x3_ctor_list numeral_eq_Suc)

text \<open>The three loops of \<open>operator*\<close> compute the nine row-by-column sums.\<close>

lemma Matrix3x3_mul_list:
  "Matrix3x3_mul [a0, a1, a2, a3, a4, a5, a6, a7, a8] [b0, b1, b2, b3, b4, b5, b6, b7, b8] =
     [a0 * b0 + a1 * b3 + a2 * b6, a0 * b1 + a1 * b4 + a2 * b7, a0 * b2 + a1 * b5 + a2 * b8,
      a3 * b0 + a4 * b3 + a5 * b6, a3 * b1 + a4 * b4 + a5 * b7, a3 * b2 + a4 * b5 + a5 * b8,
      a6 * b0 + a7 * b3 + a8 * b6, a6 * b1 + a7 * b4 + a8 * b7, a6 * b2 + a7 * b5 + a8 * b8]"
  by (simp add: Matrix3x3_mul_def mul_i_def mul_j_def mul_k_def upt3 Matrix3x3_ctor_list
      numeral_eq_Suc)

lemma composed_rotation_list:
  "Matrix3x3_mul (Matrix3x3_mul (rotationZ c) (rotationY b)) (rotationX a) =
     [cos c * cos b, cos c * sin b * sin a - sin c * cos a, cos c * sin b * cos a + sin c * sin a,
      sin c * cos b, sin c * sin b * sin a + cos c * cos a, sin c * sin b * cos a - cos c * sin a,
      - sin b, cos b * sin a, cos b * cos a]"
  by (simp add: rotationX_list rotationY_list rotationZ_list Matrix3x3_mul_list)

lemma spec_rotation_rows:
  "spec_rotation a b c =
     [[cos c * cos b, cos c * sin b * sin a - sin c * cos a, cos c * sin b * cos a + sin c * sin a],
      [sin c * cos b, sin c * sin b * sin a + cos c * cos a, sin c * sin b * cos a - cos c * sin a],
      [- sin b, cos b * sin a, cos b * cos a]]"
  by (simp add: spec_rotation_def spec_mul_def spec_Rx_def spec_Ry_def spec_Rz_def upt3)

lemma normalizeModelMatrix_list:
  "normalizeModelMatrix p =
     (let R = Matrix3x3_mul
                (Matrix3x3_mul (rotationZ (rotation p ! 2)) (rotationY (rotation p ! 1)))
                (rotationX (rotation p ! 0))
      in [R ! 0, R ! 1, R ! 2, 0,
          R ! 3, R ! 4, R ! 5, 0,
          R ! 6, R ! 7, R ! 8, 0,
          translation p ! 0 * 2, - (translation p ! 1) * 2, translation p ! 2 * 1 + 1, 1])"
  by (simp add: normalizeModelMatrix_def Let_def numeral_eq_Suc)

lemma normalizeModelMatrix_entries:
  "normalizeModelMatrix p =
     (let a = rotation p ! 0; b = rotation p ! 1; c = rotation p ! 2
      in [cos c * cos b, cos c * sin b * sin a - sin c * cos a,
            cos c * sin b * cos a + sin c * sin a, 0,
          sin c * cos b, sin c * sin b * sin a + cos c * cos a,
            sin c * sin b * cos a - cos c * sin a, 0,
          - sin b, cos b * sin a, cos b * cos a, 0,
          translation p ! 0 * 2, - (translation p ! 1) * 2, translation p ! 2 * 1 + 1, 1])"
  by (simp add: normalizeModelMatrix_list composed_rotation_list Let_def numeral_eq_Suc)

text \<open>
  C4. For every HeadPose with rotation (0,0,0) and translation (0,0,0),
  \<open>normalizeModelMatrix\<close> produces the row-major 4x4 identity matrix, except that the
  entry at index 14 is 1 (the camera offset).
\<close>

theorem normalizeModelMatrix_zero_pose:
  assumes "rotation p = [0, 0, 0]" and "translation p = [0, 0, 0]"
  shows "normalizeModelMatrix p =
           [1, 0, 0, 0,
            0, 1, 0, 0,
            0, 0, 1, 0,
            0, 0, 1, 1]"
  using assms by (simp add: normalizeModelMatrix_entries Let_def numeral_eq_Suc)

theorem normalizeModelMatrix_zero_pose_witness:
  "rotation zero_HeadPose = [0, 0, 0] \<and> translation zero_HeadPose = [0, 0, 0]
   \<and> normalizeModelMatrix zero_HeadPose = [1, 0, 0, 0, 0, 1, 0, 0, 0, 0, 1, 0, 0, 0, 1, 1]"
proof -
  have r: "rotation zero_HeadPose = [0, 0, 0]"
    by (simp add: zero_HeadPose_def numeral_eq_Suc)
  have t: "translation zero_HeadPose = [0, 0, 0]"
    by (simp add: zero_HeadPose_def numeral_eq_Suc)
  show ?thesis
    using r t normalizeModelMatrix_zero_pose [OF r t] by simp
qed

text \<open>
  C5. For all rotation angles (pitch, yaw, roll) the rotation block embedded in the
  model matrix is the composition \<open>Rz * Ry * Rx\<close> of the standard right-handed elementary
  rotations; and for every angle \<open>\<theta>\<close> a pose with rotation \<open>(0, 0, \<theta>)\<close> gives a matrix
  whose upper-left 2x2 block is the plane rotation by \<open>\<theta>\<close>.
\<close>

theorem normalizeModelMatrix_rotation_block:
  "rotation_block (normalizeModelMatrix p)
     = spec_rotation (rotation p ! 0) (rotation p ! 1) (rotation p ! 2)
   \<and> [[normalizeModelMatrix (p\<lparr>rotation := [0, 0, \<theta>]\<rparr>) ! 0,
        normalizeModelMatrix (p\<lparr>rotation := [0, 0, \<theta>]\<rparr>) ! 1],
       [normalizeModelMatrix (p\<lparr>rotation := [0, 0, \<theta>]\<rparr>) ! 4,
        normalizeModelMatrix (p\<lparr>rotation := [0, 0, \<theta>]\<rparr>) ! 5]]
     = [[cos \<theta>, - sin \<theta>], [sin \<theta>, cos \<theta>]]"
proof
  show "rotation_block (normalizeModelMatrix p)
          = spec_rotation (rotation p ! 0) (rotation p ! 1) (rotation p ! 2)"
    by (simp add: normalizeModelMatrix_entries spec_rotation_rows rotation_block_def upt3 Let_def
        numeral_eq_Suc)
next
  show "[[normalizeModelMatrix (p\<lparr>rotation := [0, 0, \<theta>]\<rparr>) ! 0,
          normalizeModelMatrix (p\<lparr>rotation := [0, 0, \<theta>]\<rparr>) ! 1],
         [normalizeModelMatrix (p\<lparr>rotation := [0, 0, \<theta>]\<rparr>) ! 4,
          normalizeModelMatrix (p\<lparr>rotation := [0, 0, \<theta>]\<rparr>) ! 5]]
        = [[cos \<theta>, - sin \<theta>], [sin \<theta>, cos \<theta>]]"
    by (simp add: normalizeModelMatrix_entries Let_def numeral_eq_Suc)
qed

text \<open>
  C6. For every HeadPose with translation (tx, ty, tz), \<open>normalizeModelMatrix\<close> writes
  \<open>tx * 2\<close> at index 12, \<open>- ty * 2\<close> at index 13 and \<open>tz * 1 + 1\<close> at index 14 of the
  sixteen entries; the entries 3, 7 and 11 stay zero and entry 15 is one.
\<close>

theorem normalizeModelMatrix_translation:
  "normalizeModelMatrix p ! 12 = translation p ! 0 * 2.0
   \<and> normalizeModelMatrix p ! 13 = - (translation p ! 1) * 2.0
   \<and> normalizeModelMatrix p ! 14 = translation p ! 2 * 1.0 + 1.0
   \<and> length (normalizeModelMatrix p) = 16
   \<and> normalizeModelMatrix p ! 3 = 0 \<and> normalizeModelMatrix p ! 7 = 0
   \<and> normalizeModelMatrix p ! 11 = 0 \<and> normalizeModelMatrix p ! 15 = 1"
  by (simp add: normalizeModelMatrix_list Let_def numeral_eq_Suc)

section \<open>Properties of the key-point selector and the pose estimator\<close>

lemmas LandmarkIndex_defs =
  kLeftEye_def kRightEye_def kNoseTip_def kUpperLip_def kLowerLip_def kChin_def
  kLeftEar_def kRightEar_def kForehead_def kLeftCheek_def kRightCheek_def

lemma length3E:
  assumes "length xs = 3"
  obtains a b c where "xs = [a, b, c]"
  using assms by (auto simp: numeral_eq_Suc length_Suc_conv)

lemma computeHeadPose_rotation:
  assumes "478 \<le> length lms" and "length (rotation p) = 3"
  shows "rotation (computeHeadPose lms p) =
           [((lm_y (lms ! 33) + lm_y (lms ! 263)) * 0.5 - lm_y (lms ! 1)) * 1.5,
            ((lm_x (lms ! 33) + lm_x (lms ! 263)) * 0.5 - 0.5) * 2.0,
            atan2 (lm_y (lms ! 263) - lm_y (lms ! 33)) (lm_x (lms ! 263) - lm_x (lms ! 33))]"
proof -
  obtain a b c where "rotation p = [a, b, c]"
    using assms(2) by (rule length3E)
  then show ?thesis
    using assms(1)
    by (simp add: computeHeadPose_def Let_def LandmarkIndex_defs numeral_eq_Suc)
qed

lemma computeHeadPose_translation:
  assumes "478 \<le> length lms" and "length (translation p) = 3"
  shows "translation (computeHeadPose lms p) =
           [lm_x (lms ! 1) - 0.5, lm_y (lms ! 1) - 0.5, lm_z (lms ! 1)]"
proof -
  obtain a b c where "translation p = [a, b, c]"
    using assms(2) by (rule length3E)
  then show ?thesis
    using assms(1)
    by (simp add: computeHeadPose_def Let_def LandmarkIndex_defs numeral_eq_Suc)
qed

lemma computeHeadPose_full:
  assumes "478 \<le> length lms" and "length (rotation p) = 3" and "length (translation p) = 3"
  shows "computeHeadPose lms p =
     \<lparr>translation = [lm_x (lms ! 1) - 0.5, lm_y (lms ! 1) - 0.5, lm_z (lms ! 1)],
      rotation = [((lm_y (lms ! 33) + lm_y (lms ! 263)) * 0.5 - lm_y (lms ! 1)) * 1.5,
                  ((lm_x (lms ! 33) + lm_x (lms ! 263)) * 0.5 - 0.5) * 2.0,
                  atan2 (lm_y (lms ! 263) - lm_y (lms ! 33)) (lm_x (lms ! 263) - lm_x (lms ! 33))],
      modelMatrix = modelMatrix p\<rparr>"
proof -
  have "modelMatrix (computeHeadPose lms p) = modelMatrix p"
    by (simp add: computeHeadPose_def Let_def)
  then show ?thesis
    using computeHeadPose_rotation [OF assms(1,2)] computeHeadPose_translation [OF assms(1,3)]
    by (cases "computeHeadPose lms p") simp
qed

lemma extractKeyPoints_full:
  assumes "478 \<le> length lms"
  shows "extractKeyPoints lms kp =
     \<lparr>leftEye = lms ! 33, rightEye = lms ! 263, noseTip = lms ! 1, upperLip = lms ! 13,
      chin = lms ! 152, leftEar = lms ! 234, rightEar = lms ! 454, forehead = lms ! 10\<rparr>"
  using assms by (simp add: extractKeyPoints_def kExpectedLandmarks_def LandmarkIndex_defs)

lemma synthetic_landmarks_nth:
  "length (synthetic_landmarks le re nt) = 478"
  "synthetic_landmarks le re nt ! 33 = le"
  "synthetic_landmarks le re nt ! 263 = re"
  "synthetic_landmarks le re nt ! 1 = nt"
  "synthetic_landmarks le re nt ! Suc 0 = nt"
  by (simp_all add: synthetic_landmarks_def)

lemma zero_HeadPose_lengths:
  "length (rotation zero_HeadPose) = 3" "length (translation zero_HeadPose) = 3"
  by (simp_all add: zero_HeadPose_def)

text \<open>
  C2. For every landmark set of length at least 478, \<open>computeHeadPose\<close> sets the yaw
  \<open>rotation[1]\<close> to \<open>((leftEye.x + rightEye.x) / 2 - 0.5) * 2\<close>, the pitch \<open>rotation[0]\<close>
  to \<open>((leftEye.y + rightEye.y) / 2 - noseTip.y) * 1.5\<close> and the translation to
  \<open>(noseTip.x - 0.5, noseTip.y - 0.5, noseTip.z)\<close>, with the left eye, the right eye and
  the nose tip read at the indices 33, 263 and 1. The pose written to is a HeadPose:
  its two arrays have three entries.
\<close>

theorem computeHeadPose_yaw_pitch_translation:
  assumes "478 \<le> length lms" and "length (rotation p) = 3" and "length (translation p) = 3"
  shows "rotation (computeHeadPose lms p) ! 1
           = ((lm_x (lms ! 33) + lm_x (lms ! 263)) / 2 - 0.5) * 2.0
       \<and> rotation (computeHeadPose lms p) ! 0
           = ((lm_y (lms ! 33) + lm_y (lms ! 263)) / 2 - lm_y (lms ! 1)) * 1.5
       \<and> translation (computeHeadPose lms p)
           = [lm_x (lms ! 1) - 0.5, lm_y (lms ! 1) - 0.5, lm_z (lms ! 1)]"
  using assms by (simp add: computeHeadPose_rotation computeHeadPose_translation)

text \<open>
  The instance of the claim: left eye (0.35, 0.45, 0), right eye (0.65, 0.45, 0) and
  nose tip (0.5, 0.55, 0) give yaw 0, pitch -0.15 and translation (0, 0.05, 0).
\<close>

theorem computeHeadPose_yaw_pitch_translation_witness:
  "478 \<le> length (synthetic_landmarks \<lparr>lm_x = 0.35, lm_y = 0.45, lm_z = 0\<rparr>
                    \<lparr>lm_x = 0.65, lm_y = 0.45, lm_z = 0\<rparr> \<lparr>lm_x = 0.5, lm_y = 0.55, lm_z = 0\<rparr>)
   \<and> length (rotation zero_HeadPose) = 3 \<and> length (translation zero_HeadPose) = 3
   \<and> rotation (computeHeadPose (synthetic_landmarks \<lparr>lm_x = 0.35, lm_y = 0.45, lm_z = 0\<rparr>
         \<lparr>lm_x = 0.65, lm_y = 0.45, lm_z = 0\<rparr> \<lparr>lm_x = 0.5, lm_y = 0.55, lm_z = 0\<rparr>)
           zero_HeadPose) ! 1 = 0
   \<and> rotation (computeHeadPose (synthetic_landmarks \<lparr>lm_x = 0.35, lm_y = 0.45, lm_z = 0\<rparr>
         \<lparr>lm_x = 0.65, lm_y = 0.45, lm_z = 0\<rparr> \<lparr>lm_x = 0.5, lm_y = 0.55, lm_z = 0\<rparr>)
           zero_HeadPose) ! 0 = - 0.15
   \<and> translation (computeHeadPose (synthetic_landmarks \<lparr>lm_x = 0.35, lm_y = 0.45, lm_z = 0\<rparr>
         \<lparr>lm_x = 0.65, lm_y = 0.45, lm_z = 0\<rparr> \<lparr>lm_x = 0.5, lm_y = 0.55, lm_z = 0\<rparr>)
           zero_HeadPose)
       = [0, 0.05, 0]"
proof -
  let ?lms = "synthetic_landmarks \<lparr>lm_x = 0.35, lm_y = 0.45, lm_z = 0\<rparr>
                \<lparr>lm_x = 0.65, lm_y = 0.45, lm_z = 0\<rparr> \<lparr>lm_x = 0.5, lm_y = 0.55, lm_z = 0\<rparr>"
  have n: "478 \<le> length ?lms"
    by (simp add: synthetic_landmarks_nth)
  note r = zero_HeadPose_lengths(1) and t = zero_HeadPose_lengths(2)
  show ?thesis
    using n r t computeHeadPose_yaw_pitch_translation [OF n r t]
    by (simp add: synthetic_landmarks_nth)
qed

subsection \<open>The roll angle\<close>

lemma sqrt_sum_squares_factor:
  fixes dx dy :: real
  assumes "dx \<noteq> 0"
  shows "sqrt (dx\<^sup>2 + dy\<^sup>2) = \<bar>dx\<bar> * sqrt (1 + (dy / dx)\<^sup>2)"
proof -
  have "dx\<^sup>2 + dy\<^sup>2 = dx\<^sup>2 * (1 + (dy / dx)\<^sup>2)"
    using assms by (simp add: field_simps power2_eq_square)
  then show ?thesis
    by (simp add: real_sqrt_mult)
qed

text \<open>
  \<open>atan2 dy dx\<close> is the angle of the vector \<open>(dx, dy)\<close>: the vector is its own length
  times \<open>(cos, sin)\<close> of that angle, and the angle lies in \<open>(-\<pi>, \<pi>]\<close>.
\<close>

lemma atan2_polar:
  assumes "dx \<noteq> 0 \<or> dy \<noteq> 0"
  shows "sqrt (dx\<^sup>2 + dy\<^sup>2) * cos (atan2 dy dx) = dx
       \<and> sqrt (dx\<^sup>2 + dy\<^sup>2) * sin (atan2 dy dx) = dy"
proof -
  have pos: "0 < sqrt (1 + (dy / dx)\<^sup>2)"
    by (simp add: add_pos_nonneg)
  consider (right) "0 < dx" | (left) "dx < 0" | (up) "dx = 0" "0 < dy" | (down) "dx = 0" "dy < 0"
    using assms by linarith
  then show ?thesis
  proof cases
    case right
    then show ?thesis
      using pos by (simp add: atan2_def sqrt_sum_squares_factor cos_arctan sin_arctan)
  next
    case left
    then show ?thesis
      using pos by (simp add: atan2_def sqrt_sum_squares_factor cos_arctan sin_arctan)
  next
    case up
    then show ?thesis by (simp add: atan2_def)
  next
    case down
    then show ?thesis by (simp add: atan2_def)
  qed
qed

lemma atan2_range: "- pi < atan2 dy dx \<and> atan2 dy dx \<le> pi"
proof -
  have lo: "- (pi / 2) < arctan (dy / dx)"
    by (rule arctan_lbound)
  have hi: "arctan (dy / dx) < pi / 2"
    by (rule arctan_ubound)
  have neg: "dx < 0 \<Longrightarrow> 0 \<le> dy \<Longrightarrow> arctan (dy / dx) \<le> 0"
    by (simp add: divide_nonneg_neg arctan_le_zero_iff)
  have posi: "dx < 0 \<Longrightarrow> dy < 0 \<Longrightarrow> 0 < arctan (dy / dx)"
    by (simp add: divide_neg_neg zero_less_arctan_iff)
  show ?thesis
    using lo hi neg posi pi_gt_zero by (auto simp: atan2_def)
qed

text \<open>
  C3. For every landmark set of length at least 478, \<open>computeHeadPose\<close> sets the roll
  \<open>rotation[2]\<close> to \<open>atan2 (rightEye.y - leftEye.y) (rightEye.x - leftEye.x)\<close>. This is
  the in-plane angle of the vector from the left eye to the right eye: it lies in
  \<open>(-\<pi>, \<pi>]\<close> and, when the eyes do not coincide, the vector is its length times
  \<open>(cos roll, sin roll)\<close>.
\<close>

theorem computeHeadPose_roll:
  assumes "478 \<le> length lms" and "length (rotation p) = 3"
  shows "rotation (computeHeadPose lms p) ! 2
           = atan2 (lm_y (lms ! 263) - lm_y (lms ! 33)) (lm_x (lms ! 263) - lm_x (lms ! 33))
       \<and> - pi < rotation (computeHeadPose lms p) ! 2 \<and> rotation (computeHeadPose lms p) ! 2 \<le> pi
       \<and> (lm_x (lms ! 263) \<noteq> lm_x (lms ! 33) \<or> lm_y (lms ! 263) \<noteq> lm_y (lms ! 33) \<longrightarrow>
            sqrt ((lm_x (lms ! 263) - lm_x (lms ! 33))\<^sup>2 + (lm_y (lms ! 263) - lm_y (lms ! 33))\<^sup>2)
              * cos (rotation (computeHeadPose lms p) ! 2) = lm_x (lms ! 263) - lm_x (lms ! 33)
          \<and> sqrt ((lm_x (lms ! 263) - lm_x (lms ! 33))\<^sup>2 + (lm_y (lms ! 263) - lm_y (lms ! 33))\<^sup>2)
              * sin (rotation (computeHeadPose lms p) ! 2) = lm_y (lms ! 263) - lm_y (lms ! 33))"
  using assms
    atan2_range [of "lm_y (lms ! 263) - lm_y (lms ! 33)" "lm_x (lms ! 263) - lm_x (lms ! 33)"]
    atan2_polar [of "lm_x (lms ! 263) - lm_x (lms ! 33)" "lm_y (lms ! 263) - lm_y (lms ! 33)"]
  by (simp add: computeHeadPose_rotation)

text \<open>
  The instance of the claim: left eye (0.3, 0.5) and right eye (0.7, 0.5) give roll 0.
\<close>

theorem computeHeadPose_roll_witness:
  "478 \<le> length (synthetic_landmarks \<lparr>lm_x = 0.3, lm_y = 0.5, lm_z = 0\<rparr>
                    \<lparr>lm_x = 0.7, lm_y = 0.5, lm_z = 0\<rparr> zero_Landmark)
   \<and> length (rotation zero_HeadPose) = 3
   \<and> lm_x (synthetic_landmarks \<lparr>lm_x = 0.3, lm_y = 0.5, lm_z = 0\<rparr>
             \<lparr>lm_x = 0.7, lm_y = 0.5, lm_z = 0\<rparr> zero_Landmark ! 263)
       \<noteq> lm_x (synthetic_landmarks \<lparr>lm_x = 0.3, lm_y = 0.5, lm_z = 0\<rparr>
             \<lparr>lm_x = 0.7, lm_y = 0.5, lm_z = 0\<rparr> zero_Landmark ! 33)
   \<and> rotation (computeHeadPose (synthetic_landmarks \<lparr>lm_x = 0.3, lm_y = 0.5, lm_z = 0\<rparr>
         \<lparr>lm_x = 0.7, lm_y = 0.5, lm_z = 0\<rparr> zero_Landmark) zero_HeadPose) ! 2 = 0"
proof -
  let ?lms = "synthetic_landmarks \<lparr>lm_x = 0.3, lm_y = 0.5, lm_z = 0\<rparr>
                \<lparr>lm_x = 0.7, lm_y = 0.5, lm_z = 0\<rparr> zero_Landmark"
  have n: "478 \<le> length ?lms"
    by (simp add: synthetic_landmarks_nth)
  note r = zero_HeadPose_lengths(1)
  have d: "lm_x (?lms ! 263) \<noteq> lm_x (?lms ! 33)"
    by (simp add: synthetic_landmarks_nth)
  have "rotation (computeHeadPose ?lms zero_HeadPose) ! 2
          = atan2 (lm_y (?lms ! 263) - lm_y (?lms ! 33)) (lm_x (?lms ! 263) - lm_x (?lms ! 33))"
    using computeHeadPose_roll [OF n r] by (rule conjunct1)
  also have "\<dots> = 0"
    by (simp add: synthetic_landmarks_nth atan2_def)
  finally have z: "rotation (computeHeadPose ?lms zero_HeadPose) ! 2 = 0" .
  show ?thesis
    using n r d z by blast
qed

text \<open>
  C7. For every landmark set of length below 478 (477 and 0 included), the key-point
  selector writes no field of the key points and the pose estimator writes no field of
  the pose: both return what they were given, so key points and a pose that were at
  their all-zero default stay there. Neither path can fail.
\<close>

theorem short_landmarks_silent_noop:
  assumes "length lms < 478"
  shows "extractKeyPoints lms kp = kp \<and> computeHeadPose lms p = p
       \<and> extractKeyPoints lms zero_KeyPoints = zero_KeyPoints
       \<and> computeHeadPose lms zero_HeadPose = zero_HeadPose"
  using assms by (simp add: extractKeyPoints_def computeHeadPose_def kExpectedLandmarks_def)

theorem short_landmarks_silent_noop_witness:
  "length (replicate 477 \<lparr>lm_x = 0.5, lm_y = 0.5, lm_z = 0.1\<rparr>) < 478
   \<and> extractKeyPoints (replicate 477 \<lparr>lm_x = 0.5, lm_y = 0.5, lm_z = 0.1\<rparr>) zero_KeyPoints
       = zero_KeyPoints
   \<and> computeHeadPose (replicate 477 \<lparr>lm_x = 0.5, lm_y = 0.5, lm_z = 0.1\<rparr>) zero_HeadPose
       = zero_HeadPose
   \<and> length ([] :: Landmark list) < 478
   \<and> extractKeyPoints [] zero_KeyPoints = zero_KeyPoints
   \<and> computeHeadPose [] zero_HeadPose = zero_HeadPose"
proof -
  have a: "length (replicate 477 \<lparr>lm_x = 0.5, lm_y = 0.5, lm_z = 0.1\<rparr>) < 478"
    by simp
  have b: "length ([] :: Landmark list) < 478"
    by simp
  show ?thesis
    using a b short_landmarks_silent_noop [OF a] short_landmarks_silent_noop [OF b]
    by blast
qed

section \<open>Properties of the tracking session\<close>

lemma mesh_loop_eq: "mesh_loop i acc = acc @ map mock_landmark [i..477]"
proof (induction i acc rule: mesh_loop.induct)
  case (1 i lms)
  show ?case
  proof (cases "i < kNumLandmarks")
    case True
    then have "[i..477] = i # [i + 1..477]"
      by (simp add: upto_rec1 kNumLandmarks_def)
    with 1 True show ?thesis
      by (simp add: mesh_loop.simps [of i])
  next
    case False
    then show ?thesis
      by (simp add: mesh_loop.simps [of i] kNumLandmarks_def)
  qed
qed

lemma Impl_processFrame_None:
  "Impl_processFrame impl None ind = (FaceResult_default_init ind, impl)"
  by (simp add: Impl_processFrame_def FaceResult_default_init_def)

lemma Impl_processFrame_Some:
  "Impl_processFrame impl (Some buf) ind =
     (\<lparr>hasFace = True, confidence = 0.95, landmarks = map mock_landmark [0..477],
       pose = fst ind, keyPoints = snd ind\<rparr>,
      impl\<lparr>Impl_lastResult :=
        \<lparr>hasFace = True, confidence = 0.95, landmarks = map mock_landmark [0..477],
         pose = fst ind, keyPoints = snd ind\<rparr>\<rparr>)"
  by (simp add: Impl_processFrame_def FaceResult_default_init_def Let_def mesh_loop_eq)

lemma processFrame_None:
  "processFrame t None ind = (FaceResult_default_init ind, t)"
  by (simp add: processFrame_def Impl_processFrame_None FaceResult_default_init_def)

lemma processFrame_Some_result:
  "fst (processFrame t (Some buf) ind) =
     \<lparr>hasFace = True, confidence = 0.95, landmarks = map mock_landmark [0..477],
      pose = (computeHeadPose (map mock_landmark [0..477]) (fst ind))
               \<lparr>modelMatrix :=
                  normalizeModelMatrix (computeHeadPose (map mock_landmark [0..477]) (fst ind))\<rparr>,
      keyPoints = extractKeyPoints (map mock_landmark [0..477]) (snd ind)\<rparr>"
  by (simp add: processFrame_def Impl_processFrame_Some Let_def)

lemma processFrame_Some_cache:
  "getLastResult (snd (processFrame t (Some buf) ind)) =
     \<lparr>hasFace = True, confidence = 0.95, landmarks = map mock_landmark [0..477],
      pose = fst ind, keyPoints = snd ind\<rparr>"
  by (simp add: processFrame_def Impl_processFrame_Some Let_def getLastResult_def
      Impl_getLastResult_def)

lemma processFrame_Some_indep:
  assumes "wf_HeadPose (fst ind)" and "wf_HeadPose (fst ind')"
  shows "fst (processFrame t (Some buf) ind) = fst (processFrame t' (Some buf') ind')"
  using assms
  by (simp add: processFrame_Some_result wf_HeadPose_def computeHeadPose_full extractKeyPoints_full
      normalizeModelMatrix_entries Let_def)

text \<open>
  C10. For every non-null frame, every session (so every Config and every cached
  result) and every content of the uninitialised members, \<open>processFrame\<close> returns the
  same result: \<open>hasFace\<close> is true, the confidence is 0.95 and the landmarks are the 478
  synthetic points computed from the index alone.
\<close>

theorem processFrame_stub_constant:
  assumes "wf_HeadPose (fst ind)" and "wf_HeadPose (fst ind')"
  shows "fst (processFrame t (Some buf) ind) = fst (processFrame t' (Some buf') ind')
       \<and> hasFace (fst (processFrame t (Some buf) ind))
       \<and> confidence (fst (processFrame t (Some buf) ind)) = 0.95
       \<and> landmarks (fst (processFrame t (Some buf) ind)) = map mock_landmark [0..477]
       \<and> length (landmarks (fst (processFrame t (Some buf) ind))) = 478"
  using processFrame_Some_indep [OF assms]
  by (simp add: processFrame_Some_result)

theorem processFrame_stub_constant_witness:
  "wf_HeadPose (fst zero_ind) \<and> wf_HeadPose (fst stale_ind)
   \<and> fst (processFrame (FaceTracker_ctor Config_ctor) (Some frame_a) zero_ind)
       = fst (processFrame (FaceTracker_ctor gpu_Config) (Some frame_b) stale_ind)
   \<and> hasFace (fst (processFrame (FaceTracker_ctor Config_ctor) (Some frame_a) zero_ind))"
proof -
  have a: "wf_HeadPose (fst zero_ind)"
    by (simp add: wf_HeadPose_def zero_ind_def zero_HeadPose_def)
  have b: "wf_HeadPose (fst stale_ind)"
    by (simp add: wf_HeadPose_def stale_ind_def)
  show ?thesis
    using a b processFrame_stub_constant [OF a b, of "FaceTracker_ctor Config_ctor" frame_a
        "FaceTracker_ctor gpu_Config" frame_b]
    by blast
qed

text \<open>
  The null-frame path, for every session and every content of the uninitialised
  members: the result has \<open>hasFace = false\<close>, confidence 0 and no landmarks, its pose and
  key points are never written, and the session is left as it was.
\<close>

lemma processFrame_None_fields:
  "hasFace (fst (processFrame t None ind)) = False
   \<and> confidence (fst (processFrame t None ind)) = 0
   \<and> landmarks (fst (processFrame t None ind)) = []
   \<and> pose (fst (processFrame t None ind)) = fst ind
   \<and> keyPoints (fst (processFrame t None ind)) = snd ind
   \<and> snd (processFrame t None ind) = t"
  by (simp add: processFrame_None FaceResult_default_init_def)

text \<open>
  C8, on the code. The claim asks that a null frame give \<open>hasFace = false\<close> with all
  other fields default, and the cache unchanged. The code declares \<open>FaceResult result;\<close>
  where \<open>reset\<close> writes \<open>FaceResult{}\<close>: the pose and the key points of the returned value
  are not zeroed. On a fresh session, with left-over data in the uninitialised members,
  the null-frame call returns \<open>hasFace = false\<close>, confidence 0 and no landmarks and leaves
  the cache unchanged, but its result is not the all-default FaceResult: the
  translation is (1, 2, 3), the model matrix has 7 at entry 15, the chin is (1, 1, 1),
  where the all-default value has zeros.
\<close>

theorem processFrame_null_frame_not_default:
  "hasFace (fst (processFrame (FaceTracker_ctor Config_ctor) None stale_ind)) = False
   \<and> confidence (fst (processFrame (FaceTracker_ctor Config_ctor) None stale_ind)) = 0
   \<and> landmarks (fst (processFrame (FaceTracker_ctor Config_ctor) None stale_ind)) = []
   \<and> getLastResult (snd (processFrame (FaceTracker_ctor Config_ctor) None stale_ind))
       = getLastResult (FaceTracker_ctor Config_ctor)
   \<and> fst (processFrame (FaceTracker_ctor Config_ctor) None stale_ind) \<noteq> FaceResult_value_init
   \<and> translation (pose (fst (processFrame (FaceTracker_ctor Config_ctor) None stale_ind)))
       = [1, 2, 3]
   \<and> translation (pose FaceResult_value_init) = [0, 0, 0]
   \<and> modelMatrix (pose (fst (processFrame (FaceTracker_ctor Config_ctor) None stale_ind))) ! 15
       = 7
   \<and> modelMatrix (pose FaceResult_value_init) ! 15 = 0
   \<and> chin (keyPoints (fst (processFrame (FaceTracker_ctor Config_ctor) None stale_ind)))
       = \<lparr>lm_x = 1, lm_y = 1, lm_z = 1\<rparr>
   \<and> chin (keyPoints FaceResult_value_init) = \<lparr>lm_x = 0, lm_y = 0, lm_z = 0\<rparr>"
proof -
  let ?r = "fst (processFrame (FaceTracker_ctor Config_ctor) None stale_ind)"
  have f: "hasFace ?r = False" "confidence ?r = 0" "landmarks ?r = []"
    by (simp_all add: processFrame_None FaceResult_default_init_def)
  have g: "getLastResult (snd (processFrame (FaceTracker_ctor Config_ctor) None stale_ind))
             = getLastResult (FaceTracker_ctor Config_ctor)"
    by (simp add: processFrame_None)
  have t1: "translation (pose ?r) = [1, 2, 3]"
    by (simp add: processFrame_None FaceResult_default_init_def stale_ind_def)
  have t0: "translation (pose FaceResult_value_init) = [0, 0, 0]"
    by (simp add: FaceResult_value_init_def zero_HeadPose_def numeral_eq_Suc)
  have m1: "modelMatrix (pose ?r) ! 15 = 7"
    by (simp add: processFrame_None FaceResult_default_init_def stale_ind_def)
  have m0: "modelMatrix (pose FaceResult_value_init) ! 15 = 0"
    by (simp add: FaceResult_value_init_def zero_HeadPose_def)
  have c1: "chin (keyPoints ?r) = \<lparr>lm_x = 1, lm_y = 1, lm_z = 1\<rparr>"
    by (simp add: processFrame_None FaceResult_default_init_def stale_ind_def)
  have c0: "chin (keyPoints FaceResult_value_init) = \<lparr>lm_x = 0, lm_y = 0, lm_z = 0\<rparr>"
    by (simp add: FaceResult_value_init_def zero_KeyPoints_def zero_Landmark_def)
  have ne: "?r \<noteq> FaceResult_value_init"
  proof
    assume "?r = FaceResult_value_init"
    then have "modelMatrix (pose ?r) ! 15 = modelMatrix (pose FaceResult_value_init) ! 15"
      by simp
    with m1 m0 show False by simp
  qed
  from f g ne t1 t0 m1 m0 c1 c0 show ?thesis
    by blast
qed

text \<open>
  C9. For every session, whatever it has cached, \<open>reset\<close> followed by \<open>getLastResult\<close>
  returns the all-default FaceResult: \<open>hasFace = false\<close>, confidence 0, no landmarks.
\<close>

theorem reset_then_getLastResult:
  "getLastResult (reset t) = FaceResult_value_init
   \<and> hasFace (getLastResult (reset t)) = False
   \<and> confidence (getLastResult (reset t)) = 0
   \<and> landmarks (getLastResult (reset t)) = []"
  by (simp add: getLastResult_def reset_def Impl_getLastResult_def Impl_reset_def
      FaceResult_value_init_def)

lemma mesh_nth:
  "map mock_landmark [0..477] ! 33 = mock_landmark 33"
  "map mock_landmark [0..477] ! 1 = mock_landmark 1"
  "map mock_landmark [0..477] ! Suc 0 = mock_landmark 1"
  by (simp_all add: nth_upto)

text \<open>
  C1, as stated, fails. On a fresh session with the default Config, one call of
  \<open>processFrame\<close> on a frame returns a result with \<open>hasFace = true\<close>, and \<open>getLastResult\<close>
  right after it returns a different FaceResult: the cache was written inside
  \<open>Impl::processFrame\<close>, before the key points, the pose and the model matrix were
  derived. With the uninitialised members holding zeros, the returned result and the
  cached one differ in the key points (the left eye has y = 0.32 against 0), in the pose
  (the translation has y = -0.2 against 0) and in the model matrix (entry 15 is 1
  against 0).
\<close>

theorem getLastResult_differs_from_returned:
  "hasFace (fst (processFrame (FaceTracker_ctor Config_ctor) (Some frame_a) zero_ind))
   \<and> getLastResult (snd (processFrame (FaceTracker_ctor Config_ctor) (Some frame_a) zero_ind))
       \<noteq> fst (processFrame (FaceTracker_ctor Config_ctor) (Some frame_a) zero_ind)
   \<and> lm_y (leftEye (keyPoints (getLastResult
         (snd (processFrame (FaceTracker_ctor Config_ctor) (Some frame_a) zero_ind))))) = 0
   \<and> lm_y (leftEye (keyPoints
         (fst (processFrame (FaceTracker_ctor Config_ctor) (Some frame_a) zero_ind)))) = 0.32
   \<and> translation (pose (getLastResult
         (snd (processFrame (FaceTracker_ctor Config_ctor) (Some frame_a) zero_ind)))) ! 1 = 0
   \<and> translation (pose
         (fst (processFrame (FaceTracker_ctor Config_ctor) (Some frame_a) zero_ind))) ! 1 = - 0.2
   \<and> modelMatrix (pose (getLastResult
         (snd (processFrame (FaceTracker_ctor Config_ctor) (Some frame_a) zero_ind)))) ! 15 = 0
   \<and> modelMatrix (pose
         (fst (processFrame (FaceTracker_ctor Config_ctor) (Some frame_a) zero_ind))) ! 15 = 1"
proof -
  let ?X = "processFrame (FaceTracker_ctor Config_ctor) (Some frame_a) zero_ind"
  have h: "hasFace (fst ?X)"
    by (simp add: processFrame_Some_result)
  have k0: "lm_y (leftEye (keyPoints (getLastResult (snd ?X)))) = 0"
    by (simp add: processFrame_Some_cache zero_ind_def zero_KeyPoints_def zero_Landmark_def)
  have k1: "lm_y (leftEye (keyPoints (fst ?X))) = 0.32"
    by (simp add: processFrame_Some_result extractKeyPoints_full mesh_nth mock_landmark_def
        Let_def centerY_def faceHeight_def)
  have t0: "translation (pose (getLastResult (snd ?X))) ! 1 = 0"
    by (simp add: processFrame_Some_cache zero_ind_def zero_HeadPose_def)
  have t1: "translation (pose (fst ?X)) ! 1 = - 0.2"
    by (simp add: processFrame_Some_result computeHeadPose_translation zero_ind_def
        zero_HeadPose_lengths mesh_nth mock_landmark_def Let_def centerY_def faceHeight_def)
  have m0: "modelMatrix (pose (getLastResult (snd ?X))) ! 15 = 0"
    by (simp add: processFrame_Some_cache zero_ind_def zero_HeadPose_def)
  have m1: "modelMatrix (pose (fst ?X)) ! 15 = 1"
    by (simp add: processFrame_Some_result normalizeModelMatrix_entries Let_def)
  have "getLastResult (snd ?X) \<noteq> fst ?X"
  proof
    assume "getLastResult (snd ?X) = fst ?X"
    then have "modelMatrix (pose (getLastResult (snd ?X))) ! 15 = modelMatrix (pose (fst ?X)) ! 15"
      by simp
    with m0 m1 show False by simp
  qed
  with h k0 k1 t0 t1 m0 m1 show ?thesis by blast
qed

text \<open>
  C1, amended. After a \<open>processFrame\<close> call that returns a result \<open>r\<close> with
  \<open>hasFace = true\<close>, with no call in between, \<open>getLastResult\<close> returns exactly the one
  FaceResult that the detector stage \<open>Impl::processFrame\<close> produced and stored in that
  call: it equals \<open>r\<close> in \<open>hasFace\<close>, \<open>confidence\<close> and \<open>landmarks\<close>. The key points, the
  pose and the model matrix are derived after the store and attached to \<open>r\<close> alone.
\<close>

theorem getLastResult_after_processFrame:
  assumes "hasFace (fst (processFrame t pb ind))"
  shows "getLastResult (snd (processFrame t pb ind))
           = fst (Impl_processFrame (FaceTracker_impl t) pb ind)
       \<and> hasFace (getLastResult (snd (processFrame t pb ind)))
           = hasFace (fst (processFrame t pb ind))
       \<and> confidence (getLastResult (snd (processFrame t pb ind)))
           = confidence (fst (processFrame t pb ind))
       \<and> landmarks (getLastResult (snd (processFrame t pb ind)))
           = landmarks (fst (processFrame t pb ind))"
proof (cases pb)
  case None
  with assms show ?thesis
    by (simp add: processFrame_None FaceResult_default_init_def)
next
  case (Some buf)
  then show ?thesis
    by (simp add: processFrame_Some_result processFrame_Some_cache Impl_processFrame_Some)
qed

theorem getLastResult_after_processFrame_witness:
  "hasFace (fst (processFrame (FaceTracker_ctor Config_ctor) (Some frame_a) stale_ind))
   \<and> landmarks (getLastResult
         (snd (processFrame (FaceTracker_ctor Config_ctor) (Some frame_a) stale_ind)))
       = landmarks (fst (processFrame (FaceTracker_ctor Config_ctor) (Some frame_a) stale_ind))
   \<and> confidence (getLastResult
         (snd (processFrame (FaceTracker_ctor Config_ctor) (Some frame_a) stale_ind))) = 0.95"
proof -
  have h: "hasFace (fst (processFrame (FaceTracker_ctor Config_ctor) (Some frame_a) stale_ind))"
    by (simp add: processFrame_Some_result)
  have c: "confidence (fst (processFrame (FaceTracker_ctor Config_ctor) (Some frame_a) stale_ind))
             = 0.95"
    by (simp add: processFrame_Some_result)
  note T = getLastResult_after_processFrame [OF h]
  from T have l: "landmarks (getLastResult
        (snd (processFrame (FaceTracker_ctor Config_ctor) (Some frame_a) stale_ind)))
      = landmarks (fst (processFrame (FaceTracker_ctor Config_ctor) (Some frame_a) stale_ind))"
    by blast
  from T c have c': "confidence (getLastResult
        (snd (processFrame (FaceTracker_ctor Config_ctor) (Some frame_a) stale_ind))) = 0.95"
    by metis
  from h l c' show ?thesis
    by blast
qed

end
